theory Spec2Isabelle
  imports Complex_Main
begin

section \<open>The hand-to-reverb control pipeline of PLUGIN.py\<close>

text \<open>
  PLUGIN.py reads camera frames, takes the centroid \<open>(cx, cy)\<close> of the detected hand and
  turns it into two control values, \<open>/size\<close> and \<open>/decay\<close>, sent as OSC messages.
  This theory embeds the signal path of the script: the helper functions of lines 27-35 and
  the body of the \<open>while\<close> loop of \<open>main\<close> (lines 71-111).

  Python floats are modelled as the real numbers: rounding error, infinities and NaN are
  outside the model. What Python raises on the reals is kept: a float division by zero and
  a zero base under a negative exponent raise \<open>ZeroDivisionError\<close>. The range of
  doubles is written out for the quantizer on its own (\<open>quantize_double\<close>), where
  \<open>round\<close> raises \<open>OverflowError\<close> on an infinite quotient.
\<close>

subsection \<open>Errors and configuration\<close>

datatype error = RuntimeError | ZeroDivisionError | OverflowError

text \<open>
  The CONFIG block (lines 7-25) holds module-level constants that the user edits per
  deployment. The model passes them explicitly as a record, with the field names of the
  source; \<open>CONFIG\<close> is the block as shipped. \<open>OSC_IP\<close>, \<open>OSC_PORT\<close>, \<open>CAM_INDEX\<close>
  and \<open>DRAW_PREVIEW\<close> only concern the transport, the camera and the preview window.
\<close>

record config =
  SIZE_RANGE :: "real \<times> real"
  DECAY_RANGE :: "real \<times> real"
  SMOOTH_ALPHA :: real
  DEADZONE_NORM :: real
  STEP_SIZE :: real
  STEP_DECAY :: real
  MAX_UPS :: real
  GAMMA_X :: real
  GAMMA_Y :: real
  INVERT_Y :: bool

definition CONFIG :: config where
  "CONFIG = \<lparr> SIZE_RANGE = (10, 100), DECAY_RANGE = (80 / 100, 98 / 100),
      SMOOTH_ALPHA = 12 / 100, DEADZONE_NORM = 2 / 100,
      STEP_SIZE = 5 / 10, STEP_DECAY = 3 / 1000, MAX_UPS = 30,
      GAMMA_X = 9 / 10, GAMMA_Y = 9 / 10, INVERT_Y = True \<rparr>"

text \<open>
  The script has no validation code. The constraints below are the ones the data model of
  the specification puts on a configuration (ranges with \<open>min < max\<close>, positive gammas,
  steps and rate, dead-zone fraction in \<open>[0,1)\<close>, alpha in \<open>(0,1]\<close>); they serve as the
  hypothesis under which the properties of the pipeline are stated.
\<close>

definition valid_config :: "config \<Rightarrow> bool" where
  "valid_config cfg \<longleftrightarrow>
     fst (SIZE_RANGE cfg) < snd (SIZE_RANGE cfg) \<and>
     fst (DECAY_RANGE cfg) < snd (DECAY_RANGE cfg) \<and>
     0 < GAMMA_X cfg \<and> 0 < GAMMA_Y cfg \<and>
     0 < STEP_SIZE cfg \<and> 0 < STEP_DECAY cfg \<and>
     0 \<le> DEADZONE_NORM cfg \<and> DEADZONE_NORM cfg < 1 \<and>
     0 < SMOOTH_ALPHA cfg \<and> SMOOTH_ALPHA cfg \<le> 1 \<and>
     0 < MAX_UPS cfg"

subsection \<open>The helper functions (lines 27-35)\<close>

definition lerp :: "real \<Rightarrow> real \<Rightarrow> real \<Rightarrow> real" where
  "lerp a b t = a + (b - a) * t"

definition clamp01 :: "real \<Rightarrow> real" where
  "clamp01 x = max 0 (min 1 x)"

definition ema :: "real option \<Rightarrow> real \<Rightarrow> real \<Rightarrow> real" where
  "ema prev new a = (case prev of Some p \<Rightarrow> a * new + (1 - a) * p | None \<Rightarrow> new)"

text \<open>
  \<open>clamp01(t) ** gamma\<close>: the base is in \<open>[0,1]\<close>. Python gives \<open>0.0 ** 0.0 = 1.0\<close>,
  \<open>0.0 ** g = 0.0\<close> for \<open>g > 0\<close> and raises \<open>ZeroDivisionError\<close> for \<open>g < 0\<close>; on a
  positive base it is the real power.
\<close>

definition resp_curve :: "real \<Rightarrow> real \<Rightarrow> error + real" where
  "resp_curve t gamma =
     (let c = clamp01 t
      in if c = 0 then (if gamma < 0 then Inl ZeroDivisionError
                        else if gamma = 0 then Inr 1 else Inr 0)
         else Inr (c powr gamma))"

text \<open>
  Python's built-in \<open>round\<close> with one argument returns the nearest integer and resolves
  a tie to the even neighbour.
\<close>

definition py_round :: "real \<Rightarrow> int" where
  "py_round x =
     (let f = floor x; d = x - of_int f
      in if d < 1 / 2 then f
         else if 1 / 2 < d then f + 1
         else if even f then f else f + 1)"

definition quantize :: "real \<Rightarrow> real \<Rightarrow> error + real" where
  "quantize v step =
     (if step = 0 then Inl ZeroDivisionError
      else Inr (of_int (py_round (v / step)) * step))"

text \<open>
  \<open>quantize\<close> above takes the quotient \<open>v / step\<close> to be a finite double. With the
  range of doubles written out: a quotient of magnitude \<open>2^1024 - 2^970\<close> or more is
  rounded to infinity by the division, and \<open>round\<close> of an infinity raises
  \<open>OverflowError\<close>. The largest double is \<open>2^1024 - 2^971\<close>.
\<close>

definition double_overflow :: real where
  "double_overflow = 2 ^ 1024 - 2 ^ 970"

definition double_max :: real where
  "double_max = 2 ^ 1024 - 2 ^ 971"

definition quantize_double :: "real \<Rightarrow> real \<Rightarrow> error + real" where
  "quantize_double v step =
     (if step = 0 then Inl ZeroDivisionError
      else if double_overflow \<le> \<bar>v / step\<bar> then Inl OverflowError
      else Inr (of_int (py_round (v / step)) * step))"

definition within_deadzone :: "real option \<Rightarrow> real \<Rightarrow> real \<Rightarrow> real \<Rightarrow> real \<Rightarrow> bool" where
  "within_deadzone prev cur rmin rmax dz_frac =
     (case prev of None \<Rightarrow> False
      | Some p \<Rightarrow> \<bar>cur - p\<bar> < dz_frac * (rmax - rmin))"

subsection \<open>The state of the loop (lines 53-57)\<close>

record state =
  sm_size :: "real option"
  sm_decay :: "real option"
  last_tx_time :: real
  last_sent_size :: "real option"
  last_sent_decay :: "real option"

definition initial_state :: state where
  "initial_state = \<lparr> sm_size = None, sm_decay = None, last_tx_time = 0,
      last_sent_size = None, last_sent_decay = None \<rparr>"

text \<open>An OSC message: the address and the float sent with it.\<close>

type_synonym msg = "string \<times> real"

subsection \<open>The loop body (lines 71-111)\<close>

text \<open>Lines 79-84: shape both coordinates and map them to the control ranges.\<close>

definition targets :: "config \<Rightarrow> real \<times> real \<Rightarrow> error + (real \<times> real)" where
  "targets cfg xy =
     (case resp_curve (fst xy) (GAMMA_X cfg) of
        Inl e \<Rightarrow> Inl e
      | Inr nx \<Rightarrow>
         (case resp_curve (if INVERT_Y cfg then 1 - snd xy else snd xy) (GAMMA_Y cfg) of
            Inl e \<Rightarrow> Inl e
          | Inr ny \<Rightarrow>
              Inr (lerp (fst (SIZE_RANGE cfg)) (snd (SIZE_RANGE cfg)) nx,
                   lerp (fst (DECAY_RANGE cfg)) (snd (DECAY_RANGE cfg)) ny)))"

text \<open>
  Lines 79-92: the targets are smoothed into \<open>sm_size\<close> and \<open>sm_decay\<close>, and the smoothed
  values are quantized. The result is the state with the new smoothed values and the two
  candidates \<open>cand_size\<close> and \<open>cand_decay\<close>.
\<close>

definition candidates :: "config \<Rightarrow> state \<Rightarrow> real \<times> real \<Rightarrow> error + (state \<times> real \<times> real)" where
  "candidates cfg s xy =
     (case targets cfg xy of
        Inl e \<Rightarrow> Inl e
      | Inr (size_target, decay_target) \<Rightarrow>
         (let new_size = ema (sm_size s) size_target (SMOOTH_ALPHA cfg);
              new_decay = ema (sm_decay s) decay_target (SMOOTH_ALPHA cfg);
              s' = s\<lparr> sm_size := Some new_size, sm_decay := Some new_decay \<rparr>
          in case quantize new_size (STEP_SIZE cfg) of
               Inl e \<Rightarrow> Inl e
             | Inr cand_size \<Rightarrow>
                (case quantize new_decay (STEP_DECAY cfg) of
                   Inl e \<Rightarrow> Inl e
                 | Inr cand_decay \<Rightarrow> Inr (s', cand_size, cand_decay))))"

text \<open>
  Lines 95-111: the rate limit and the dead-zone test against the last sent values.
  \<open>now\<close> is what \<open>time.time()\<close> returns on line 95. The result is the new state and the
  messages handed to the OSC client, in the order sent.
\<close>

definition gate :: "config \<Rightarrow> state \<Rightarrow> real \<Rightarrow> real \<Rightarrow> real \<Rightarrow> error + (state \<times> msg list)" where
  "gate cfg s cand_size cand_decay now =
     (if MAX_UPS cfg = 0 then Inl ZeroDivisionError
      else if now - last_tx_time s \<ge> 1 / MAX_UPS cfg then
        (let send_size = \<not> within_deadzone (last_sent_size s) cand_size
                             (fst (SIZE_RANGE cfg)) (snd (SIZE_RANGE cfg)) (DEADZONE_NORM cfg);
             send_decay = \<not> within_deadzone (last_sent_decay s) cand_decay
                             (fst (DECAY_RANGE cfg)) (snd (DECAY_RANGE cfg)) (DEADZONE_NORM cfg);
             (s1, out1) = (if send_size
                           then (s\<lparr> last_sent_size := Some cand_size \<rparr>, [(''/size'', cand_size)])
                           else (s, []));
             (s2, out2) = (if send_decay
                           then (s1\<lparr> last_sent_decay := Some cand_decay \<rparr>,
                                 out1 @ [(''/decay'', cand_decay)])
                           else (s1, out1));
             s3 = (if send_size \<or> send_decay then s2\<lparr> last_tx_time := now \<rparr> else s2)
         in Inr (s3, out2))
      else Inr (s, []))"

text \<open>
  One pass of the loop body on a frame that was read: \<open>sample\<close> is \<open>None\<close> when no hand
  was detected (line 71), and the centroid \<open>(cx, cy)\<close> otherwise.
\<close>

definition tick :: "config \<Rightarrow> state \<Rightarrow> (real \<times> real) option \<Rightarrow> real \<Rightarrow> error + (state \<times> msg list)" where
  "tick cfg s sample now =
     (case sample of
        None \<Rightarrow> Inr (s, [])
      | Some xy \<Rightarrow>
         (case candidates cfg s xy of
            Inl e \<Rightarrow> Inl e
          | Inr (s', cand_size, cand_decay) \<Rightarrow> gate cfg s' cand_size cand_decay now))"

text \<open>
  The loop over the frames read until it ends (a failed read or the quit key). A frame is
  its sample and the clock reading of that pass. The log has one entry per pass: the clock
  reading and the messages sent. An exception ends the run.
\<close>

type_synonym frame = "(real \<times> real) option \<times> real"

fun run :: "config \<Rightarrow> state \<Rightarrow> frame list \<Rightarrow> error + (state \<times> (real \<times> msg list) list)" where
  "run cfg s [] = Inr (s, [])"
| "run cfg s ((sample, now) # fs) =
     (case tick cfg s sample now of
        Inl e \<Rightarrow> Inl e
      | Inr (s', out) \<Rightarrow>
         (case run cfg s' fs of
            Inl e \<Rightarrow> Inl e
          | Inr (s'', tr) \<Rightarrow> Inr (s'', (now, out) # tr)))"

text \<open>
  \<open>main\<close>: the camera is opened (line 49-51, the only check before the loop), the state
  is initialised and the loop runs.
\<close>

definition main :: "config \<Rightarrow> bool \<Rightarrow> frame list \<Rightarrow> error + (state \<times> (real \<times> msg list) list)" where
  "main cfg cap_isOpened frames =
     (if \<not> cap_isOpened then Inl RuntimeError else run cfg initial_state frames)"

text \<open>The transmission events of a log: the passes in which at least one message was sent.\<close>

definition transmissions :: "(real \<times> msg list) list \<Rightarrow> (real \<times> msg list) list" where
  "transmissions tr = filter (\<lambda>e. snd e \<noteq> []) tr"

section \<open>Basic facts\<close>

subsection \<open>The shipped configuration, and totality under a valid configuration\<close>

lemma valid_CONFIG: "valid_config CONFIG"
  by (simp add: valid_config_def CONFIG_def)

lemma resp_curve_total: "0 \<le> gamma \<Longrightarrow> \<exists>n. resp_curve t gamma = Inr n"
  by (simp add: resp_curve_def Let_def)

lemma targets_total:
  assumes "0 \<le> GAMMA_X cfg" and "0 \<le> GAMMA_Y cfg"
  shows "\<exists>ts td. targets cfg xy = Inr (ts, td)"
proof -
  obtain nx where nx: "resp_curve (fst xy) (GAMMA_X cfg) = Inr nx"
    using resp_curve_total [OF assms(1)] by blast
  obtain ny where ny: "resp_curve (if INVERT_Y cfg then 1 - snd xy else snd xy) (GAMMA_Y cfg) = Inr ny"
    using resp_curve_total [OF assms(2)] by blast
  show ?thesis
    unfolding targets_def nx ny by simp
qed

lemma candidates_eq:
  assumes "targets cfg xy = Inr (ts, td)" and "STEP_SIZE cfg \<noteq> 0" and "STEP_DECAY cfg \<noteq> 0"
  shows "candidates cfg s xy =
     Inr (s\<lparr> sm_size := Some (ema (sm_size s) ts (SMOOTH_ALPHA cfg)),
             sm_decay := Some (ema (sm_decay s) td (SMOOTH_ALPHA cfg)) \<rparr>,
          of_int (py_round (ema (sm_size s) ts (SMOOTH_ALPHA cfg) / STEP_SIZE cfg)) * STEP_SIZE cfg,
          of_int (py_round (ema (sm_decay s) td (SMOOTH_ALPHA cfg) / STEP_DECAY cfg)) * STEP_DECAY cfg)"
  using assms by (simp add: candidates_def quantize_def Let_def)

lemma candidates_total:
  assumes "valid_config cfg"
  shows "\<exists>s1 cs cd. candidates cfg s xy = Inr (s1, cs, cd)"
proof -
  from assms have g: "0 \<le> GAMMA_X cfg" "0 \<le> GAMMA_Y cfg"
    and st: "STEP_SIZE cfg \<noteq> 0" "STEP_DECAY cfg \<noteq> 0"
    by (simp_all add: valid_config_def)
  obtain ts td where "targets cfg xy = Inr (ts, td)"
    using targets_total [OF g] by blast
  from candidates_eq [OF this st] show ?thesis by blast
qed

lemma candidates_frame:
  assumes "candidates cfg s xy = Inr (s1, cs, cd)"
  shows "last_tx_time s1 = last_tx_time s \<and> last_sent_size s1 = last_sent_size s
         \<and> last_sent_decay s1 = last_sent_decay s"
  using assms
  by (auto simp: candidates_def Let_def split: sum.splits prod.splits)

subsection \<open>The gate and one pass of the loop\<close>

lemma gate_total:
  "MAX_UPS cfg \<noteq> 0 \<Longrightarrow> \<exists>s' out. gate cfg s cs cd now = Inr (s', out)"
  by (simp add: gate_def Let_def split: prod.splits)


lemma gate_out:
  assumes "gate cfg s cs cd now = Inr (s', out)"
  shows "out =
     (if 1 / MAX_UPS cfg \<le> now - last_tx_time s \<and>
         \<not> within_deadzone (last_sent_size s) cs (fst (SIZE_RANGE cfg)) (snd (SIZE_RANGE cfg))
             (DEADZONE_NORM cfg)
      then [(''/size'', cs)] else []) @
     (if 1 / MAX_UPS cfg \<le> now - last_tx_time s \<and>
         \<not> within_deadzone (last_sent_decay s) cd (fst (DECAY_RANGE cfg)) (snd (DECAY_RANGE cfg))
             (DEADZONE_NORM cfg)
      then [(''/decay'', cd)] else [])"
  using assms by (auto simp: gate_def Let_def split: if_splits)

lemma gate_last_sent:
  assumes "gate cfg s cs cd now = Inr (s', out)"
  shows "last_sent_size s' =
     (if 1 / MAX_UPS cfg \<le> now - last_tx_time s \<and>
         \<not> within_deadzone (last_sent_size s) cs (fst (SIZE_RANGE cfg)) (snd (SIZE_RANGE cfg))
             (DEADZONE_NORM cfg)
      then Some cs else last_sent_size s)"
    and "last_sent_decay s' =
     (if 1 / MAX_UPS cfg \<le> now - last_tx_time s \<and>
         \<not> within_deadzone (last_sent_decay s) cd (fst (DECAY_RANGE cfg)) (snd (DECAY_RANGE cfg))
             (DEADZONE_NORM cfg)
      then Some cd else last_sent_decay s)"
  using assms by (auto simp: gate_def Let_def split: if_splits)

lemma gate_last_tx_time:
  assumes "gate cfg s cs cd now = Inr (s', out)"
  shows "last_tx_time s' = (if out = [] then last_tx_time s else now)"
  using assms by (auto simp: gate_def Let_def split: if_splits)

lemma gate_smoothed:
  assumes "gate cfg s cs cd now = Inr (s', out)"
  shows "sm_size s' = sm_size s \<and> sm_decay s' = sm_decay s"
  using assms by (auto simp: gate_def Let_def split: if_splits)


lemma tick_Some:
  assumes "candidates cfg s xy = Inr (s1, cs, cd)"
  shows "tick cfg s (Some xy) now = gate cfg s1 cs cd now"
  using assms by (simp add: tick_def)

lemma tick_None: "tick cfg s None now = Inr (s, [])"
  by (simp add: tick_def)

lemma tick_total:
  assumes "valid_config cfg"
  shows "\<exists>s' out. tick cfg s sample now = Inr (s', out)"
proof (cases sample)
  case None
  then show ?thesis by (simp add: tick_None)
next
  case (Some xy)
  obtain s1 cs cd where c: "candidates cfg s xy = Inr (s1, cs, cd)"
    using candidates_total [OF assms] by blast
  from assms have "MAX_UPS cfg \<noteq> 0" by (simp add: valid_config_def)
  from gate_total [OF this] show ?thesis
    unfolding Some tick_Some [OF c] by blast
qed

lemma tick_last_tx_time:
  assumes "tick cfg s sample now = Inr (s', out)"
  shows "last_tx_time s' = (if out = [] then last_tx_time s else now)"
proof (cases sample)
  case None
  with assms show ?thesis by (auto simp: tick_None)
next
  case (Some xy)
  with assms obtain s1 cs cd where c: "candidates cfg s xy = Inr (s1, cs, cd)"
    and g: "gate cfg s1 cs cd now = Inr (s', out)"
    by (auto simp: tick_def split: sum.splits)
  from gate_last_tx_time [OF g] candidates_frame [OF c] show ?thesis by simp
qed

lemma tick_tx_eligible:
  assumes "tick cfg s sample now = Inr (s', out)" and "out \<noteq> []"
  shows "1 / MAX_UPS cfg \<le> now - last_tx_time s"
proof (cases sample)
  case None
  with assms show ?thesis by (auto simp: tick_None)
next
  case (Some xy)
  with assms obtain s1 cs cd where c: "candidates cfg s xy = Inr (s1, cs, cd)"
    and g: "gate cfg s1 cs cd now = Inr (s', out)"
    by (auto simp: tick_def split: sum.splits)
  from gate_out [OF g] assms(2) have "1 / MAX_UPS cfg \<le> now - last_tx_time s1"
    by (auto split: if_splits)
  with candidates_frame [OF c] show ?thesis by simp
qed

lemma run_total:
  assumes "valid_config cfg"
  shows "\<exists>s' tr. run cfg s frames = Inr (s', tr)"
proof (induction frames arbitrary: s)
  case Nil
  show ?case by simp
next
  case (Cons f fs)
  obtain sample now where f: "f = (sample, now)" by (cases f)
  obtain s1 out where t: "tick cfg s sample now = Inr (s1, out)"
    using tick_total [OF assms] by blast
  obtain s2 tr where "run cfg s1 fs = Inr (s2, tr)"
    using Cons.IH by blast
  with t f show ?case by simp
qed

subsection \<open>Rounding\<close>

lemma py_round_of_int: "py_round (of_int n) = n"
  by (simp add: py_round_def)

lemma py_round_half:
  "py_round (of_int n + 1 / 2) = (if even n then n else n + 1)"
proof -
  have "floor (of_int n + 1 / 2 :: real) = n" by linarith
  then show ?thesis by (simp add: py_round_def)
qed

lemma py_round_bounds: "floor x \<le> py_round x \<and> py_round x \<le> ceiling x"
proof -
  have "py_round x \<le> ceiling x"
  proof (cases "x = of_int (floor x)")
    case True
    then have "x - of_int (floor x) = 0" by simp
    then have "py_round x = floor x" by (simp add: py_round_def Let_def)
    then show ?thesis by (simp add: floor_le_ceiling)
  next
    case False
    then have "ceiling x = floor x + 1"
      by (metis ceiling_altdef)
    then show ?thesis by (simp add: py_round_def Let_def)
  qed
  moreover have "floor x \<le> py_round x" by (simp add: py_round_def Let_def)
  ultimately show ?thesis by simp
qed

lemma py_round_abs_le:
  assumes "\<bar>x\<bar> \<le> of_int m"
  shows "\<bar>of_int (py_round x) :: real\<bar> \<le> of_int m"
proof -
  from assms have "x \<le> of_int m" and "- of_int m \<le> x" by linarith+
  then have "ceiling x \<le> m" and "- m \<le> floor x"
    by (simp_all add: ceiling_le_iff le_floor_iff)
  with py_round_bounds [of x] have "py_round x \<le> m" and "- m \<le> py_round x" by linarith+
  then have "\<bar>py_round x\<bar> \<le> m" by linarith
  then show ?thesis by (metis of_int_abs of_int_le_iff)
qed

lemma double_max_int: "double_max = of_int (2 ^ 1024 - 2 ^ 971)"
  by (simp add: double_max_def)

lemma double_max_less_overflow: "double_max < double_overflow"
  by (simp add: double_max_def double_overflow_def)

subsection \<open>More on the gate\<close>

lemma within_deadzone_iff:
  "within_deadzone prev cur rmin rmax dz \<longleftrightarrow>
     (\<exists>p. prev = Some p \<and> \<bar>cur - p\<bar> < dz * (rmax - rmin))"
  by (simp add: within_deadzone_def split: option.splits)

lemma tick_gate:
  assumes "valid_config cfg"
  shows "\<exists>s1 cs cd s' out. candidates cfg s xy = Inr (s1, cs, cd) \<and>
           tick cfg s (Some xy) now = Inr (s', out) \<and> gate cfg s1 cs cd now = Inr (s', out) \<and>
           last_tx_time s1 = last_tx_time s \<and> last_sent_size s1 = last_sent_size s \<and>
           last_sent_decay s1 = last_sent_decay s"
proof -
  obtain s1 cs cd where c: "candidates cfg s xy = Inr (s1, cs, cd)"
    using candidates_total [OF assms] by blast
  obtain s' out where k: "tick cfg s (Some xy) now = Inr (s', out)"
    using tick_total [OF assms] by blast
  then have "gate cfg s1 cs cd now = Inr (s', out)"
    by (simp add: tick_Some [OF c])
  with c k candidates_frame [OF c] show ?thesis by blast
qed

text \<open>
  Line 111 formats \<open>last_sent_size\<close> and \<open>last_sent_decay\<close> as floats after a
  transmission. Both are set whenever it is reached, so the formatting cannot fail and is
  not a branch of the model.
\<close>

lemma gate_sent_both_set:
  assumes "gate cfg s cs cd now = Inr (s', out)" and "out \<noteq> []"
  shows "last_sent_size s' \<noteq> None \<and> last_sent_decay s' \<noteq> None"
  using assms by (auto simp: gate_def within_deadzone_def Let_def split: if_splits option.splits)

lemma tick_smoothed:
  assumes "tick cfg s (Some xy) now = Inr (s', out)"
  shows "\<exists>ts td. targets cfg xy = Inr (ts, td) \<and>
           sm_size s' = Some (ema (sm_size s) ts (SMOOTH_ALPHA cfg)) \<and>
           sm_decay s' = Some (ema (sm_decay s) td (SMOOTH_ALPHA cfg))"
proof -
  from assms obtain s1 cs cd where c: "candidates cfg s xy = Inr (s1, cs, cd)"
    and g: "gate cfg s1 cs cd now = Inr (s', out)"
    by (auto simp: tick_def split: sum.splits)
  from c obtain ts td where t: "targets cfg xy = Inr (ts, td)"
    and s1: "s1 = s\<lparr> sm_size := Some (ema (sm_size s) ts (SMOOTH_ALPHA cfg)),
                     sm_decay := Some (ema (sm_decay s) td (SMOOTH_ALPHA cfg)) \<rparr>"
    by (auto simp: candidates_def Let_def split: sum.splits prod.splits)
  from gate_smoothed [OF g] s1 t show ?thesis by simp
qed

subsection \<open>Errors\<close>

lemma targets_error: "targets cfg xy = Inl e \<Longrightarrow> e = ZeroDivisionError"
  by (auto simp: targets_def resp_curve_def Let_def split: sum.splits if_splits)

lemma candidates_error: "candidates cfg s xy = Inl e \<Longrightarrow> e = ZeroDivisionError"
  by (auto simp: candidates_def quantize_def Let_def
      split: sum.splits prod.splits if_splits dest: targets_error)

lemma candidates_zero_step:
  assumes "STEP_SIZE cfg = 0 \<or> STEP_DECAY cfg = 0"
  shows "candidates cfg s xy = Inl ZeroDivisionError"
proof (cases "targets cfg xy")
  case (Inl e)
  with targets_error [OF Inl] show ?thesis by (simp add: candidates_def)
next
  case (Inr t)
  with assms show ?thesis
    by (auto simp: candidates_def quantize_def Let_def split: prod.splits)
qed

lemma tick_zero_division:
  assumes "STEP_SIZE cfg = 0 \<or> STEP_DECAY cfg = 0 \<or> MAX_UPS cfg = 0"
  shows "tick cfg s (Some xy) now = Inl ZeroDivisionError"
proof (cases "STEP_SIZE cfg = 0 \<or> STEP_DECAY cfg = 0")
  case True
  from candidates_zero_step [OF True] show ?thesis by (simp add: tick_def)
next
  case False
  with assms have m: "MAX_UPS cfg = 0" by blast
  show ?thesis
  proof (cases "candidates cfg s xy")
    case (Inl e)
    with candidates_error [OF Inl] show ?thesis by (simp add: tick_def)
  next
    case (Inr r)
    with m show ?thesis by (simp add: tick_def gate_def split: prod.splits)
  qed
qed

subsection \<open>Runs\<close>

lemma run_append:
  "run cfg s (xs @ ys) =
     (case run cfg s xs of
        Inl e \<Rightarrow> Inl e
      | Inr (s1, tr1) \<Rightarrow>
         (case run cfg s1 ys of
            Inl e \<Rightarrow> Inl e
          | Inr (s2, tr2) \<Rightarrow> Inr (s2, tr1 @ tr2)))"
proof (induction xs arbitrary: s)
  case Nil
  show ?case by (simp split: sum.splits)
next
  case (Cons f fs)
  obtain sample now where f: "f = (sample, now)" by (cases f)
  show ?case
    unfolding f by (simp add: Cons.IH split: sum.splits prod.splits)
qed

lemma transmissions_Cons:
  "transmissions ((now, out) # tr) =
     (if out = [] then transmissions tr else (now, out) # transmissions tr)"
  by (simp add: transmissions_def)

lemma run_spacing:
  assumes "0 < MAX_UPS cfg" and "run cfg s frames = Inr (s', tr)"
  shows "sorted_wrt (\<lambda>e e'. 1 / MAX_UPS cfg \<le> fst e' - fst e) (transmissions tr) \<and>
         (\<forall>e \<in> set (transmissions tr). 1 / MAX_UPS cfg \<le> fst e - last_tx_time s) \<and>
         last_tx_time s' =
           (if transmissions tr = [] then last_tx_time s else fst (last (transmissions tr)))"
  using assms(2)
proof (induction frames arbitrary: s tr)
  case Nil
  then show ?case by (simp add: transmissions_def)
next
  case (Cons f fs)
  obtain sample now where f: "f = (sample, now)" by (cases f)
  from Cons.prems f obtain s1 out tr1 where k: "tick cfg s sample now = Inr (s1, out)"
    and r: "run cfg s1 fs = Inr (s', tr1)" and tr: "tr = (now, out) # tr1"
    by (auto split: sum.splits prod.splits)
  note ih = Cons.IH [OF r]
  note lt = tick_last_tx_time [OF k]
  from assms(1) have pos: "0 < 1 / MAX_UPS cfg" by simp
  show ?case
  proof (cases "out = []")
    case True
    with ih lt tr show ?thesis by (simp add: transmissions_Cons)
  next
    case False
    from tick_tx_eligible [OF k False] have el: "1 / MAX_UPS cfg \<le> now - last_tx_time s" .
    from lt False have now: "last_tx_time s1 = now" by simp
    have a: "\<forall>e \<in> set (transmissions tr1). 1 / MAX_UPS cfg \<le> fst e - now"
      using ih now by simp
    have b: "\<forall>e \<in> set (transmissions tr1). 1 / MAX_UPS cfg \<le> fst e - last_tx_time s"
    proof
      fix e assume "e \<in> set (transmissions tr1)"
      with a have "1 / MAX_UPS cfg \<le> fst e - now" by blast
      with el pos show "1 / MAX_UPS cfg \<le> fst e - last_tx_time s" by linarith
    qed
    from ih now False tr a b el show ?thesis
      by (simp add: transmissions_Cons)
  qed
qed



text \<open>The definitions that evaluate the pipeline on given numbers.\<close>

lemmas pipeline_defs =
  tick_def gate_def within_deadzone_def candidates_def targets_def resp_curve_def clamp01_def
  lerp_def ema_def quantize_def py_round_def CONFIG_def initial_state_def valid_config_def

section \<open>The exponential smoother\<close>

text \<open>
  Claim C6. On a tick with a sample, each channel's smoothed value becomes the target when
  it was empty (no transient), and \<open>alpha * target + (1 - alpha) * smoothed\<close> otherwise;
  both channels use the one \<open>SMOOTH_ALPHA\<close>, which is \<open>0.12\<close>, in \<open>(0,1]\<close>, as
  shipped. The same recurrence is stated for \<open>ema\<close> itself.
\<close>

theorem smoother_recurrence:
  assumes "valid_config cfg"
  shows "\<exists>ts td s' out.
           targets cfg xy = Inr (ts, td) \<and> tick cfg s (Some xy) now = Inr (s', out) \<and>
           sm_size s' = Some (case sm_size s of None \<Rightarrow> ts
                              | Some p \<Rightarrow> SMOOTH_ALPHA cfg * ts + (1 - SMOOTH_ALPHA cfg) * p) \<and>
           sm_decay s' = Some (case sm_decay s of None \<Rightarrow> td
                               | Some p \<Rightarrow> SMOOTH_ALPHA cfg * td + (1 - SMOOTH_ALPHA cfg) * p) \<and>
           ema None ts a = ts \<and> ema (Some p0) ts a = a * ts + (1 - a) * p0 \<and>
           0 < SMOOTH_ALPHA CONFIG \<and> SMOOTH_ALPHA CONFIG \<le> 1"
proof -
  obtain s' out where k: "tick cfg s (Some xy) now = Inr (s', out)"
    using tick_total [OF assms] by blast
  from tick_smoothed [OF k] obtain ts td where t: "targets cfg xy = Inr (ts, td)"
    and z: "sm_size s' = Some (ema (sm_size s) ts (SMOOTH_ALPHA cfg))"
    and d: "sm_decay s' = Some (ema (sm_decay s) td (SMOOTH_ALPHA cfg))"
    by blast
  have "targets cfg xy = Inr (ts, td) \<and> tick cfg s (Some xy) now = Inr (s', out) \<and>
           sm_size s' = Some (case sm_size s of None \<Rightarrow> ts
                              | Some p \<Rightarrow> SMOOTH_ALPHA cfg * ts + (1 - SMOOTH_ALPHA cfg) * p) \<and>
           sm_decay s' = Some (case sm_decay s of None \<Rightarrow> td
                               | Some p \<Rightarrow> SMOOTH_ALPHA cfg * td + (1 - SMOOTH_ALPHA cfg) * p) \<and>
           ema None ts a = ts \<and> ema (Some p0) ts a = a * ts + (1 - a) * p0 \<and>
           0 < SMOOTH_ALPHA CONFIG \<and> SMOOTH_ALPHA CONFIG \<le> 1"
    using t k z d by (simp add: ema_def CONFIG_def split: option.splits)
  then show ?thesis by - (rule exI)+
qed

theorem smoother_recurrence_witness:
  "valid_config CONFIG \<and> targets CONFIG (0, 1) = Inr (10, 8 / 10) \<and>
   tick CONFIG
      \<lparr> sm_size = Some 100, sm_decay = Some (98 / 100), last_tx_time = 1,
        last_sent_size = Some 100, last_sent_decay = Some (981 / 1000) \<rparr> (Some (0, 1)) 2 =
     Inr (\<lparr> sm_size = Some (892 / 10), sm_decay = Some (9584 / 10000), last_tx_time = 2,
            last_sent_size = Some 89, last_sent_decay = Some (957 / 1000) \<rparr>,
          [(''/size'', 89), (''/decay'', 957 / 1000)])"
  using smoother_recurrence [OF valid_CONFIG, of "(0, 1)"
      "\<lparr> sm_size = Some 100, sm_decay = Some (98 / 100), last_tx_time = 1,
        last_sent_size = Some 100, last_sent_decay = Some (981 / 1000) \<rparr>" 2]
  by (simp add: pipeline_defs)

section \<open>The quantizer\<close>

text \<open>
  Claim C9, as the code has it. For a step \<open>s > 0\<close>, when the quotient \<open>x / s\<close> and the
  product \<open>round(x / s) * s\<close> are within the range of doubles, \<open>quantize\<close> returns
  \<open>round(x / s) * s\<close>, and quantizing that value again with the same step returns it
  unchanged. When the quotient overflows, \<open>quantize\<close> raises \<open>OverflowError\<close> and
  returns nothing.
\<close>

theorem quantize_idempotent_in_range:
  assumes "0 < s" and "\<bar>x / s\<bar> \<le> double_max"
    and "\<bar>of_int (py_round (x / s)) * s\<bar> \<le> double_max"
  shows "quantize_double x s = Inr (of_int (py_round (x / s)) * s) \<and>
         quantize_double (of_int (py_round (x / s)) * s) s = Inr (of_int (py_round (x / s)) * s) \<and>
         (double_overflow \<le> \<bar>y / s\<bar> \<longrightarrow> quantize_double y s = Inl OverflowError)"
proof -
  from assms(1) have nz: "s \<noteq> 0" by simp
  from assms(2) double_max_less_overflow have a: "\<not> double_overflow \<le> \<bar>x / s\<bar>" by linarith
  have "\<bar>of_int (py_round (x / s)) :: real\<bar> \<le> double_max"
    unfolding double_max_int by (rule py_round_abs_le) (use assms(2) in \<open>simp add: double_max_int\<close>)
  with double_max_less_overflow
  have b: "\<not> double_overflow \<le> \<bar>of_int (py_round (x / s)) :: real\<bar>" by linarith
  have "quantize_double x s = Inr (of_int (py_round (x / s)) * s)"
    using nz a by (simp add: quantize_double_def)
  moreover have "quantize_double (of_int (py_round (x / s)) * s) s = Inr (of_int (py_round (x / s)) * s)"
    using nz b by (simp add: quantize_double_def py_round_of_int)
  moreover have "quantize_double y s = Inl OverflowError" if "double_overflow \<le> \<bar>y / s\<bar>"
    using nz that by (simp add: quantize_double_def)
  ultimately show ?thesis by simp
qed

theorem quantize_idempotent_in_range_witness:
  "(0::real) < 5 / 10 \<and> \<bar>(563 / 10) / (5 / 10) :: real\<bar> \<le> double_max \<and>
   \<bar>of_int (py_round ((563 / 10) / (5 / 10))) * (5 / 10) :: real\<bar> \<le> double_max \<and>
   quantize_double (563 / 10) (5 / 10) = Inr (565 / 10) \<and>
   quantize_double (565 / 10) (5 / 10) = Inr (565 / 10) \<and>
   double_overflow \<le> \<bar>10 ^ 309 / (5 / 10)\<bar> \<and>
   quantize_double (10 ^ 309) (5 / 10) = Inl OverflowError"
  using quantize_idempotent_in_range [of "5 / 10" "563 / 10" "10 ^ 309"]
  by (simp add: quantize_double_def py_round_def double_max_def double_overflow_def)

text \<open>
  The claim as written covers every \<open>x\<close> and every \<open>s > 0\<close>. At \<open>x = 1e308\<close> and
  \<open>s = 0.1\<close> the quotient is beyond the doubles, and the first \<open>quantize\<close> raises.
\<close>

theorem quantize_overflow_counterexample:
  "(0::real) < 1 / 10 \<and> quantize_double (10 ^ 308) (1 / 10) = Inl OverflowError"
  by (simp add: quantize_double_def double_overflow_def)

text \<open>
  Claim C10. A tie is resolved to the even neighbour: when \<open>v / step\<close> is exactly
  \<open>n + 1/2\<close> for an integer \<open>n\<close>, \<open>quantize v step\<close> is the even one of \<open>n\<close> and
  \<open>n + 1\<close> times the step. So \<open>quantize 0.25 0.5 = 0.0\<close> (not \<open>0.5\<close>, which rounding away
  from zero would give) and \<open>quantize 0.75 0.5 = 1.0\<close>.
\<close>

theorem quantize_half_even:
  "quantize (25 / 100) (5 / 10) = Inr 0 \<and> quantize (75 / 100) (5 / 10) = Inr 1 \<and>
   (step \<noteq> 0 \<and> v / step = of_int n + 1 / 2 \<longrightarrow>
      quantize v step = Inr (of_int (if even n then n else n + 1) * step))"
proof -
  have "quantize (25 / 100) (5 / 10) = Inr 0" by (simp add: quantize_def py_round_def)
  moreover have "quantize (75 / 100) (5 / 10) = Inr 1" by (simp add: quantize_def py_round_def)
  moreover have "quantize v step = Inr (of_int (if even n then n else n + 1) * step)"
    if "step \<noteq> 0" and "v / step = of_int n + 1 / 2"
    using that py_round_half [of n] by (simp add: quantize_def)
  ultimately show ?thesis by blast
qed

theorem quantize_half_even_witness:
  "(3 / 1000 :: real) \<noteq> 0 \<and> (75 / 10000 :: real) / (3 / 1000) = of_int 2 + 1 / 2
   \<and> quantize (75 / 10000) (3 / 1000) = Inr (6 / 1000)"
  using quantize_half_even [of "3 / 1000" "75 / 10000" 2] by simp

section \<open>The transmission gate\<close>



text \<open>
  Claim C3. On a rate-eligible tick, each channel on its own: the candidate is suppressed
  exactly when the channel's last sent value exists and differs from the candidate by less
  than \<open>DEADZONE_NORM * (max - min)\<close>; otherwise it is sent and becomes the last sent
  value. A channel never sent is never suppressed. With fraction \<open>0.02\<close> on the range
  \<open>(10, 100)\<close>, candidate \<open>56.5\<close> after \<open>55.0\<close> is suppressed.
\<close>

theorem deadzone_suppression:
  assumes "valid_config cfg" and "1 / MAX_UPS cfg \<le> now - last_tx_time s"
  shows "\<exists>s1 cs cd s' out.
     candidates cfg s xy = Inr (s1, cs, cd) \<and> tick cfg s (Some xy) now = Inr (s', out) \<and>
     out = (if (\<exists>p. last_sent_size s = Some p \<and>
                   \<bar>cs - p\<bar> < DEADZONE_NORM cfg * (snd (SIZE_RANGE cfg) - fst (SIZE_RANGE cfg)))
            then [] else [(''/size'', cs)]) @
           (if (\<exists>p. last_sent_decay s = Some p \<and>
                   \<bar>cd - p\<bar> < DEADZONE_NORM cfg * (snd (DECAY_RANGE cfg) - fst (DECAY_RANGE cfg)))
            then [] else [(''/decay'', cd)]) \<and>
     last_sent_size s' =
       (if (\<exists>p. last_sent_size s = Some p \<and>
               \<bar>cs - p\<bar> < DEADZONE_NORM cfg * (snd (SIZE_RANGE cfg) - fst (SIZE_RANGE cfg)))
        then last_sent_size s else Some cs) \<and>
     last_sent_decay s' =
       (if (\<exists>p. last_sent_decay s = Some p \<and>
               \<bar>cd - p\<bar> < DEADZONE_NORM cfg * (snd (DECAY_RANGE cfg) - fst (DECAY_RANGE cfg)))
        then last_sent_decay s else Some cd) \<and>
     within_deadzone (Some 55) (565 / 10) 10 100 (2 / 100) \<and>
     \<not> within_deadzone None c rmin rmax dz"
proof -
  obtain s1 cs cd s' out where c: "candidates cfg s xy = Inr (s1, cs, cd)"
    and k: "tick cfg s (Some xy) now = Inr (s', out)"
    and g: "gate cfg s1 cs cd now = Inr (s', out)"
    and f: "last_tx_time s1 = last_tx_time s" "last_sent_size s1 = last_sent_size s"
      "last_sent_decay s1 = last_sent_decay s"
    using tick_gate [OF assms(1)] by blast
  from assms(2) f have e: "1 / MAX_UPS cfg \<le> now - last_tx_time s1" by simp
  have o: "out = (if (\<exists>p. last_sent_size s = Some p \<and>
                   \<bar>cs - p\<bar> < DEADZONE_NORM cfg * (snd (SIZE_RANGE cfg) - fst (SIZE_RANGE cfg)))
            then [] else [(''/size'', cs)]) @
           (if (\<exists>p. last_sent_decay s = Some p \<and>
                   \<bar>cd - p\<bar> < DEADZONE_NORM cfg * (snd (DECAY_RANGE cfg) - fst (DECAY_RANGE cfg)))
            then [] else [(''/decay'', cd)])"
    using gate_out [OF g] e f by (simp add: within_deadzone_iff)
  have l1: "last_sent_size s' =
       (if (\<exists>p. last_sent_size s = Some p \<and>
               \<bar>cs - p\<bar> < DEADZONE_NORM cfg * (snd (SIZE_RANGE cfg) - fst (SIZE_RANGE cfg)))
        then last_sent_size s else Some cs)"
    using gate_last_sent(1) [OF g] e f by (auto simp: within_deadzone_iff)
  have l2: "last_sent_decay s' =
       (if (\<exists>p. last_sent_decay s = Some p \<and>
               \<bar>cd - p\<bar> < DEADZONE_NORM cfg * (snd (DECAY_RANGE cfg) - fst (DECAY_RANGE cfg)))
        then last_sent_decay s else Some cd)"
    using gate_last_sent(2) [OF g] e f by (auto simp: within_deadzone_iff)
  have x: "within_deadzone (Some 55) (565 / 10) 10 100 (2 / 100)"
    by (simp add: within_deadzone_def)
  have n: "\<not> within_deadzone None c rmin rmax dz"
    by (simp add: within_deadzone_def)
  from c k o l1 l2 x n show ?thesis by blast
qed

theorem deadzone_suppression_witness:
  "valid_config CONFIG \<and>
   1 / MAX_UPS CONFIG \<le> 2 - last_tx_time
      \<lparr> sm_size = Some (505 / 10), sm_decay = Some (98 / 100), last_tx_time = 1,
        last_sent_size = Some 55, last_sent_decay = Some (9 / 10) \<rparr> \<and>
   candidates CONFIG
      \<lparr> sm_size = Some (505 / 10), sm_decay = Some (98 / 100), last_tx_time = 1,
        last_sent_size = Some 55, last_sent_decay = Some (9 / 10) \<rparr> (1, 0) =
     Inr (\<lparr> sm_size = Some (5644 / 100), sm_decay = Some (98 / 100), last_tx_time = 1,
            last_sent_size = Some 55, last_sent_decay = Some (9 / 10) \<rparr>, 565 / 10, 981 / 1000) \<and>
   tick CONFIG
      \<lparr> sm_size = Some (505 / 10), sm_decay = Some (98 / 100), last_tx_time = 1,
        last_sent_size = Some 55, last_sent_decay = Some (9 / 10) \<rparr> (Some (1, 0)) 2 =
     Inr (\<lparr> sm_size = Some (5644 / 100), sm_decay = Some (98 / 100), last_tx_time = 2,
            last_sent_size = Some 55, last_sent_decay = Some (981 / 1000) \<rparr>,
          [(''/decay'', 981 / 1000)])"
  using deadzone_suppression [OF valid_CONFIG, of 2
      "\<lparr> sm_size = Some (505 / 10), sm_decay = Some (98 / 100), last_tx_time = 1,
        last_sent_size = Some 55, last_sent_decay = Some (9 / 10) \<rparr>" "(1, 0)"]
  by (simp add: pipeline_defs)

text \<open>
  Claim C5. \<open>last_tx_time\<close> becomes \<open>now\<close> when the tick sent something and is
  unchanged otherwise. On a rate-eligible tick with both candidates inside their dead
  zones nothing is sent, and \<open>last_tx_time\<close>, \<open>last_sent_size\<close> and
  \<open>last_sent_decay\<close> keep their values.
\<close>

theorem both_suppressed_frame:
  assumes "valid_config cfg"
  shows "\<exists>s1 cs cd s' out.
     candidates cfg s xy = Inr (s1, cs, cd) \<and> tick cfg s (Some xy) now = Inr (s', out) \<and>
     last_tx_time s' = (if out = [] then last_tx_time s else now) \<and>
     (1 / MAX_UPS cfg \<le> now - last_tx_time s \<and>
      within_deadzone (last_sent_size s) cs (fst (SIZE_RANGE cfg)) (snd (SIZE_RANGE cfg))
          (DEADZONE_NORM cfg) \<and>
      within_deadzone (last_sent_decay s) cd (fst (DECAY_RANGE cfg)) (snd (DECAY_RANGE cfg))
          (DEADZONE_NORM cfg)
      \<longrightarrow> out = [] \<and> last_tx_time s' = last_tx_time s \<and>
          last_sent_size s' = last_sent_size s \<and> last_sent_decay s' = last_sent_decay s)"
proof -
  obtain s1 cs cd s' out where c: "candidates cfg s xy = Inr (s1, cs, cd)"
    and k: "tick cfg s (Some xy) now = Inr (s', out)"
    and g: "gate cfg s1 cs cd now = Inr (s', out)"
    and f: "last_tx_time s1 = last_tx_time s" "last_sent_size s1 = last_sent_size s"
      "last_sent_decay s1 = last_sent_decay s"
    using tick_gate [OF assms(1)] by blast
  have t: "last_tx_time s' = (if out = [] then last_tx_time s else now)"
    by (rule tick_last_tx_time [OF k])
  have "out = [] \<and> last_tx_time s' = last_tx_time s \<and>
          last_sent_size s' = last_sent_size s \<and> last_sent_decay s' = last_sent_decay s"
    if "within_deadzone (last_sent_size s) cs (fst (SIZE_RANGE cfg)) (snd (SIZE_RANGE cfg))
          (DEADZONE_NORM cfg)"
      and "within_deadzone (last_sent_decay s) cd (fst (DECAY_RANGE cfg)) (snd (DECAY_RANGE cfg))
          (DEADZONE_NORM cfg)"
    using that gate_out [OF g] gate_last_sent [OF g] t f by simp
  with c k t show ?thesis by blast
qed

theorem both_suppressed_frame_witness:
  "valid_config CONFIG \<and>
   1 / MAX_UPS CONFIG \<le> 2 - last_tx_time
      \<lparr> sm_size = Some 100, sm_decay = Some (98 / 100), last_tx_time = 1,
        last_sent_size = Some 100, last_sent_decay = Some (981 / 1000) \<rparr> \<and>
   within_deadzone (Some 100) 100 (fst (SIZE_RANGE CONFIG)) (snd (SIZE_RANGE CONFIG))
      (DEADZONE_NORM CONFIG) \<and>
   within_deadzone (Some (981 / 1000)) (981 / 1000) (fst (DECAY_RANGE CONFIG))
      (snd (DECAY_RANGE CONFIG)) (DEADZONE_NORM CONFIG) \<and>
   tick CONFIG
      \<lparr> sm_size = Some 100, sm_decay = Some (98 / 100), last_tx_time = 1,
        last_sent_size = Some 100, last_sent_decay = Some (981 / 1000) \<rparr> (Some (1, 0)) 2 =
     Inr (\<lparr> sm_size = Some 100, sm_decay = Some (98 / 100), last_tx_time = 1,
            last_sent_size = Some 100, last_sent_decay = Some (981 / 1000) \<rparr>, [])"
  using both_suppressed_frame [OF valid_CONFIG, of
      "\<lparr> sm_size = Some 100, sm_decay = Some (98 / 100), last_tx_time = 1,
        last_sent_size = Some 100, last_sent_decay = Some (981 / 1000) \<rparr>" "(1, 0)" 2]
  by (simp add: pipeline_defs)

text \<open>
  Claim C4. In every run, whatever the timestamps, any two transmission events (a tick
  that sends on both channels is one event) are at least \<open>1 / MAX_UPS\<close> apart, and the
  first is that far from the starting \<open>last_tx_time\<close>. Ticks that send nothing do not
  move \<open>last_tx_time\<close>: at the end it is the time of the last transmission event, so a
  suppressed tick does not delay the next transmission.
\<close>

theorem rate_limit_spacing:
  assumes "valid_config cfg"
  shows "\<exists>s' tr. run cfg s frames = Inr (s', tr) \<and>
     sorted_wrt (\<lambda>e e'. 1 / MAX_UPS cfg \<le> fst e' - fst e) (transmissions tr) \<and>
     (\<forall>e \<in> set (transmissions tr). 1 / MAX_UPS cfg \<le> fst e - last_tx_time s) \<and>
     last_tx_time s' =
       (if transmissions tr = [] then last_tx_time s else fst (last (transmissions tr)))"
proof -
  obtain s' tr where r: "run cfg s frames = Inr (s', tr)"
    using run_total [OF assms] by blast
  from assms have "0 < MAX_UPS cfg" by (simp add: valid_config_def)
  from run_spacing [OF this r] r show ?thesis by blast
qed

theorem rate_limit_spacing_witness:
  "valid_config CONFIG \<and>
   run CONFIG initial_state [(Some (1, 0), 1), (Some (1, 0), 2), (Some (0, 1), 201 / 100)] =
     Inr (\<lparr> sm_size = Some (892 / 10), sm_decay = Some (9584 / 10000), last_tx_time = 201 / 100,
            last_sent_size = Some 89, last_sent_decay = Some (957 / 1000) \<rparr>,
          [(1, [(''/size'', 100), (''/decay'', 981 / 1000)]), (2, []),
           (201 / 100, [(''/size'', 89), (''/decay'', 957 / 1000)])]) \<and>
   transmissions [(1, [(''/size'', 100), (''/decay'', 981 / 1000)]), (2, []),
           (201 / 100, [(''/size'', 89), (''/decay'', 957 / 1000)])] =
     [(1, [(''/size'', 100), (''/decay'', 981 / 1000 :: real)]),
           (201 / 100 :: real, [(''/size'', 89), (''/decay'', 957 / 1000)])] \<and>
   1 / MAX_UPS CONFIG \<le> 201 / 100 - 1"
  using rate_limit_spacing [OF valid_CONFIG, of initial_state
      "[(Some (1, 0), 1), (Some (1, 0), 2), (Some (0, 1), 201 / 100)]"]
  by (simp add: transmissions_def pipeline_defs)

section \<open>Detection misses\<close>

text \<open>
  Claim C7. A tick without a sample changes nothing and sends nothing. Hence a run with
  such a tick inserted anywhere ends as the run without it does: the same error, or the
  same final state and the same transmission events.
\<close>

theorem detection_miss_transparent:
  "tick cfg s None now = Inr (s, []) \<and>
   map_sum id (map_prod id transmissions) (run cfg s (xs @ (None, t) # ys)) =
   map_sum id (map_prod id transmissions) (run cfg s (xs @ ys))"
proof -
  have "map_sum id (map_prod id transmissions) (run cfg s (xs @ (None, t) # ys)) =
        map_sum id (map_prod id transmissions) (run cfg s (xs @ ys))"
  proof (cases "run cfg s xs")
    case (Inl e)
    then show ?thesis by (simp add: run_append)
  next
    case (Inr r)
    obtain s1 tr1 where r: "r = (s1, tr1)" by (cases r)
    show ?thesis
    proof (cases "run cfg s1 ys")
      case (Inl e)
      with Inr r show ?thesis by (simp add: run_append tick_None)
    next
      case (Inr q)
      obtain s2 tr2 where q: "q = (s2, tr2)" by (cases q)
      from \<open>run cfg s xs = Inr r\<close> r Inr q show ?thesis
        by (simp add: run_append tick_None transmissions_def)
    qed
  qed
  then show ?thesis by (simp add: tick_None)
qed

theorem detection_miss_transparent_witness:
  "map_sum id (map_prod id transmissions)
     (run CONFIG initial_state [(Some (1, 0), 1), (None, 3 / 2), (Some (0, 1), 2)]) =
   Inr (\<lparr> sm_size = Some (892 / 10), sm_decay = Some (9584 / 10000), last_tx_time = 2,
          last_sent_size = Some 89, last_sent_decay = Some (957 / 1000) \<rparr>,
        [(1, [(''/size'', 100), (''/decay'', 981 / 1000)]),
         (2, [(''/size'', 89), (''/decay'', 957 / 1000)])]) \<and>
   map_sum id (map_prod id transmissions)
     (run CONFIG initial_state [(Some (1, 0), 1), (Some (0, 1), 2)]) =
   Inr (\<lparr> sm_size = Some (892 / 10), sm_decay = Some (9584 / 10000), last_tx_time = 2,
          last_sent_size = Some 89, last_sent_decay = Some (957 / 1000) \<rparr>,
        [(1, [(''/size'', 100), (''/decay'', 981 / 1000)]),
         (2, [(''/size'', 89), (''/decay'', 957 / 1000)])])"
proof -
  have "run CONFIG initial_state [(Some (1, 0), 1), (Some (0, 1), 2)] =
     Inr (\<lparr> sm_size = Some (892 / 10), sm_decay = Some (9584 / 10000), last_tx_time = 2,
          last_sent_size = Some 89, last_sent_decay = Some (957 / 1000) \<rparr>,
        [(1, [(''/size'', 100), (''/decay'', 981 / 1000)]),
         (2, [(''/size'', 89), (''/decay'', 957 / 1000)])])"
    by (simp add: pipeline_defs)
  then show ?thesis
    using detection_miss_transparent [of CONFIG initial_state 0 "[(Some (1, 0), 1)]" "3 / 2"
        "[(Some (0, 1), 2)]"]
    by (simp add: transmissions_def)
qed

section \<open>Configuration errors\<close>

text \<open>
  Claim C2, as the code has it. Nothing is validated at start: under every configuration
  \<open>main\<close> enters the loop, and a tick without a sample passes. With the other values
  as shipped, a zero \<open>STEP_SIZE\<close>, \<open>STEP_DECAY\<close> or \<open>MAX_UPS\<close> is rejected only
  by the \<open>ZeroDivisionError\<close> of the first tick that carries a sample, and the size
  range \<open>(100, 10)\<close>, with \<open>min \<ge> max\<close>, is not rejected at all: its ticks are
  processed.
\<close>

theorem config_not_validated:
  "main cfg True [] = Inr (initial_state, []) \<and>
   main cfg True [(None, t)] = Inr (initial_state, [(t, [])]) \<and>
   \<not> valid_config (CONFIG\<lparr> STEP_SIZE := 0 \<rparr>) \<and>
   main (CONFIG\<lparr> STEP_SIZE := 0 \<rparr>) True ((Some xy, now) # fs) = Inl ZeroDivisionError \<and>
   \<not> valid_config (CONFIG\<lparr> STEP_DECAY := 0 \<rparr>) \<and>
   main (CONFIG\<lparr> STEP_DECAY := 0 \<rparr>) True ((Some xy, now) # fs) = Inl ZeroDivisionError \<and>
   \<not> valid_config (CONFIG\<lparr> MAX_UPS := 0 \<rparr>) \<and>
   main (CONFIG\<lparr> MAX_UPS := 0 \<rparr>) True ((Some xy, now) # fs) = Inl ZeroDivisionError \<and>
   \<not> valid_config (CONFIG\<lparr> SIZE_RANGE := (100, 10) \<rparr>) \<and>
   (\<exists>s' out. main (CONFIG\<lparr> SIZE_RANGE := (100, 10) \<rparr>) True [(Some xy, now)] =
                Inr (s', [(now, out)]))"
proof -
  have a: "main cfg True [] = Inr (initial_state, [])"
    "main cfg True [(None, t)] = Inr (initial_state, [(t, [])])"
    by (simp_all add: main_def tick_None)
  have z: "main c True ((Some xy, now) # fs) = Inl ZeroDivisionError"
    if "STEP_SIZE c = 0 \<or> STEP_DECAY c = 0 \<or> MAX_UPS c = 0" for c
    using tick_zero_division [OF that] by (simp add: main_def)
  have b: "main (CONFIG\<lparr> STEP_SIZE := 0 \<rparr>) True ((Some xy, now) # fs) = Inl ZeroDivisionError"
    "main (CONFIG\<lparr> STEP_DECAY := 0 \<rparr>) True ((Some xy, now) # fs) = Inl ZeroDivisionError"
    "main (CONFIG\<lparr> MAX_UPS := 0 \<rparr>) True ((Some xy, now) # fs) = Inl ZeroDivisionError"
    by (rule z, simp)+
  have n: "\<not> valid_config (CONFIG\<lparr> STEP_SIZE := 0 \<rparr>)"
    "\<not> valid_config (CONFIG\<lparr> STEP_DECAY := 0 \<rparr>)"
    "\<not> valid_config (CONFIG\<lparr> MAX_UPS := 0 \<rparr>)"
    "\<not> valid_config (CONFIG\<lparr> SIZE_RANGE := (100, 10) \<rparr>)"
    by (simp_all add: valid_config_def CONFIG_def)
  let ?c = "CONFIG\<lparr> SIZE_RANGE := (100, 10) \<rparr>"
  have "0 \<le> GAMMA_X ?c" "0 \<le> GAMMA_Y ?c" by (simp_all add: CONFIG_def)
  then obtain ts td where t: "targets ?c xy = Inr (ts, td)"
    using targets_total by blast
  have st: "STEP_SIZE ?c \<noteq> 0" "STEP_DECAY ?c \<noteq> 0" and m: "MAX_UPS ?c \<noteq> 0"
    by (simp_all add: CONFIG_def)
  note c = candidates_eq [OF t st, of initial_state]
  from gate_total [OF m] tick_Some [OF c]
  obtain s' out where "tick ?c initial_state (Some xy) now = Inr (s', out)"
    by metis
  then have r: "\<exists>s' out. main ?c True [(Some xy, now)] = Inr (s', [(now, out)])"
    by (simp add: main_def)
  from a b n r show ?thesis by simp
qed

theorem config_not_validated_witness:
  "main (CONFIG\<lparr> STEP_SIZE := 0 \<rparr>) True [(None, 1 / 2)] = Inr (initial_state, [(1 / 2, [])]) \<and>
   main (CONFIG\<lparr> STEP_SIZE := 0 \<rparr>) True [(Some (1, 0), 1)] = Inl ZeroDivisionError \<and>
   main (CONFIG\<lparr> MAX_UPS := 0 \<rparr>) True [(Some (1, 0), 1)] = Inl ZeroDivisionError"
  using config_not_validated [of "CONFIG\<lparr> STEP_SIZE := 0 \<rparr>" "1 / 2" "(1, 0)" 1 "[]"]
  by (simp add: main_def pipeline_defs)

text \<open>
  The claim as written has a range with \<open>min \<ge> max\<close> rejected before any tick. With
  the size range \<open>(100, 10)\<close> the run starts, processes the tick and sends both values.
\<close>

theorem invalid_range_accepted_counterexample:
  "\<not> valid_config (CONFIG\<lparr> SIZE_RANGE := (100, 10) \<rparr>) \<and>
   main (CONFIG\<lparr> SIZE_RANGE := (100, 10) \<rparr>) True [(Some (1, 0), 1)] =
     Inr (\<lparr> sm_size = Some 10, sm_decay = Some (98 / 100), last_tx_time = 1,
            last_sent_size = Some 10, last_sent_decay = Some (981 / 1000) \<rparr>,
          [(1, [(''/size'', 10), (''/decay'', 981 / 1000)])])"
  by (simp add: main_def pipeline_defs)

end
